theory Spec2Isabelle
  imports Main
begin

section \<open>Sensors of the Elexa Guardian integration (sensor.py)\<close>

text \<open>
  The module binds two kinds of sensor entities to data-update coordinators. A
  coordinator is an object of the host application that the module reads and never
  writes; an entity is an object the module creates and whose attributes its update
  callback assigns. Python attributes lose their leading underscore here
  (\<open>_attr_native_value\<close> is \<open>attr_native_value\<close>, \<open>_description\<close> is
  \<open>description\<close>); every other name is the source's.
\<close>

subsection \<open>Values of the host application\<close>

text \<open>
  The unit and device-class constants come from \<open>homeassistant.const\<close>. The module
  names them and never looks inside them, so they are symbolic.
\<close>

datatype unit_of_measurement = PERCENTAGE | TEMP_FAHRENHEIT | TIME_MINUTES

datatype device_class = DEVICE_CLASS_BATTERY | DEVICE_CLASS_TEMPERATURE

text \<open>
  \<open>SensorEntityDescription\<close>, with the fields the module sets (the others keep the
  defaults of the host's class).
\<close>

record SensorEntityDescription =
  key :: string
  name :: string
  device_class :: "device_class option"
  icon :: "string option"
  native_unit_of_measurement :: "unit_of_measurement option"

text \<open>
  A \<open>ConfigEntry\<close>: its identifier and its \<open>data\<close> mapping. The field \<open>data\<close> of a
  config entry is always written \<open>ConfigEntry.data\<close> below; the plain name \<open>data\<close>
  is the coordinator's.
\<close>

record ConfigEntry =
  entry_id :: string
  data :: "string \<rightharpoonup> string"

text \<open>
  A \<open>DataUpdateCoordinator\<close> as the module sees it: the cached \<open>data\<close> mapping and
  the flag \<open>last_update_success\<close>. Whatever else the object holds (its name, its
  polling interval, its listeners) is the extension slot of the record, so the
  functions below are defined for a coordinator with any further state. Coordinators
  are shared objects: an entity holds a reference, and the coordinators themselves live
  in a heap that maps each reference to the coordinator's present state.
\<close>

record 'v DataUpdateCoordinator =
  data :: "string \<rightharpoonup> 'v"
  last_update_success :: bool

type_synonym ref = nat

type_synonym ('v, 'z) heap = "ref \<Rightarrow> ('v, 'z) DataUpdateCoordinator_scheme"

subsection \<open>Exceptions\<close>

text \<open>
  Subscripting a mapping with a key it does not hold raises \<open>KeyError(key)\<close>. A
  method mutates its object in place, so an exception leaves the assignments made
  before it: both outcomes carry the state reached.
\<close>

datatype py_error = KeyError string

datatype 'a outcome = Returned 'a | Raised py_error 'a

fun state_of :: "'a outcome \<Rightarrow> 'a" where
  "state_of (Returned s) = s"
| "state_of (Raised e s) = s"

fun raised :: "'a outcome \<Rightarrow> py_error option" where
  "raised (Returned s) = None"
| "raised (Raised e s) = Some e"

definition getitem :: "(string \<rightharpoonup> 'a) \<Rightarrow> string \<Rightarrow> py_error + 'a" where
  "getitem m k = (case m k of None \<Rightarrow> Inl (KeyError k) | Some v \<Rightarrow> Inr v)"

subsection \<open>Constants of the package that sensor.py imports\<close>

text \<open>
  sensor.py imports its API names, the key \<open>CONF_UID\<close> and the signal template from
  the package's \<open>const\<close> module. Their values are not fixed here: they are a parameter
  \<open>K\<close> of every function that uses one, so each result holds for all values.
  \<open>SIGNAL_PAIRED_SENSOR_COORDINATOR_ADDED K uid\<close> stands for the template's
  \<open>format(uid)\<close>. The keys \<open>DOMAIN\<close>, \<open>DATA_COORDINATOR\<close>,
  \<open>DATA_COORDINATOR_PAIRED_SENSOR\<close> and \<open>DATA_UNSUB_DISPATCHER_CONNECT\<close> select fixed
  slots of \<open>hass.data\<close> and are the fields of the record \<open>domain_data\<close> further down.
\<close>

record const =
  API_SYSTEM_DIAGNOSTICS :: string
  API_SYSTEM_ONBOARD_SENSOR_STATUS :: string
  CONF_UID :: string
  SIGNAL_PAIRED_SENSOR_COORDINATOR_ADDED :: "string \<Rightarrow> string"

subsection \<open>Sensor kinds and descriptions\<close>

definition SENSOR_KIND_BATTERY :: string where
  "SENSOR_KIND_BATTERY = ''battery''"

definition SENSOR_KIND_TEMPERATURE :: string where
  "SENSOR_KIND_TEMPERATURE = ''temperature''"

definition SENSOR_KIND_UPTIME :: string where
  "SENSOR_KIND_UPTIME = ''uptime''"

definition SENSOR_DESCRIPTION_BATTERY :: SensorEntityDescription where
  "SENSOR_DESCRIPTION_BATTERY =
     \<lparr>key = SENSOR_KIND_BATTERY,
      name = ''Battery'',
      device_class = Some DEVICE_CLASS_BATTERY,
      icon = None,
      native_unit_of_measurement = Some PERCENTAGE\<rparr>"

definition SENSOR_DESCRIPTION_TEMPERATURE :: SensorEntityDescription where
  "SENSOR_DESCRIPTION_TEMPERATURE =
     \<lparr>key = SENSOR_KIND_TEMPERATURE,
      name = ''Temperature'',
      device_class = Some DEVICE_CLASS_TEMPERATURE,
      icon = None,
      native_unit_of_measurement = Some TEMP_FAHRENHEIT\<rparr>"

definition SENSOR_DESCRIPTION_UPTIME :: SensorEntityDescription where
  "SENSOR_DESCRIPTION_UPTIME =
     \<lparr>key = SENSOR_KIND_UPTIME,
      name = ''Uptime'',
      device_class = None,
      icon = Some ''mdi:timer'',
      native_unit_of_measurement = Some TIME_MINUTES\<rparr>"

definition PAIRED_SENSOR_SENSORS :: "SensorEntityDescription list" where
  "PAIRED_SENSOR_SENSORS = [SENSOR_DESCRIPTION_BATTERY, SENSOR_DESCRIPTION_TEMPERATURE]"

definition VALVE_CONTROLLER_SENSORS :: "SensorEntityDescription list" where
  "VALVE_CONTROLLER_SENSORS = [SENSOR_DESCRIPTION_TEMPERATURE, SENSOR_DESCRIPTION_UPTIME]"

subsection \<open>The entity classes\<close>

text \<open>
  The attributes the two classes share, then each class with its own reference to
  coordinator state: one coordinator for a paired sensor, a mapping from API name to
  coordinator for the valve controller. The extension slot of each record stands for
  every further attribute an entity object carries.
\<close>

record 'v GuardianEntity =
  entry :: ConfigEntry
  description :: SensorEntityDescription
  attr_available :: bool
  attr_native_unit_of_measurement :: "unit_of_measurement option"
  attr_native_value :: "'v option"

record 'v PairedSensorSensor = "'v GuardianEntity" +
  coordinator :: ref

record 'v ValveControllerSensor = "'v GuardianEntity" +
  coordinators :: "string \<rightharpoonup> ref"

text \<open>
  Modelled from the spec: the constructor of the base class \<open>PairedSensorEntity\<close>,
  which sensor.py imports from the package's \<open>__init__\<close> module; that module is not
  among the sources. By the spec an entity holds a metadata descriptor and "a
  pass-through reference to externally owned coordinator state", and sensor.py reads
  them back as \<open>self._description\<close> and \<open>self.coordinator\<close>: the constructor stores
  its three arguments. The other attributes start at the defaults of the host's entity
  classes (available, no unit, no value).
\<close>

definition PairedSensorEntity_init ::
  "ConfigEntry \<Rightarrow> ref \<Rightarrow> SensorEntityDescription \<Rightarrow> 'v PairedSensorSensor" where
  "PairedSensorEntity_init entry' coordinator' description' =
     \<lparr>entry = entry',
      description = description',
      attr_available = True,
      attr_native_unit_of_measurement = None,
      attr_native_value = None,
      coordinator = coordinator'\<rparr>"

text \<open>
  Modelled from the spec: the constructor of the base class \<open>ValveControllerEntity\<close>,
  missing from the sources like \<open>PairedSensorEntity\<close>. It stores its three arguments;
  sensor.py reads them back as \<open>self._description\<close> and \<open>self.coordinators\<close>.
\<close>

definition ValveControllerEntity_init ::
  "ConfigEntry \<Rightarrow> (string \<rightharpoonup> ref) \<Rightarrow> SensorEntityDescription \<Rightarrow> 'v ValveControllerSensor" where
  "ValveControllerEntity_init entry' coordinators' description' =
     \<lparr>entry = entry',
      description = description',
      attr_available = True,
      attr_native_unit_of_measurement = None,
      attr_native_value = None,
      coordinators = coordinators'\<rparr>"

text \<open>\<open>PairedSensorSensor.__init__\<close>: the base constructor, then the unit.\<close>

definition PairedSensorSensor_init ::
  "ConfigEntry \<Rightarrow> ref \<Rightarrow> SensorEntityDescription \<Rightarrow> 'v PairedSensorSensor" where
  "PairedSensorSensor_init entry' coordinator' description' =
     (PairedSensorEntity_init entry' coordinator' description')
       \<lparr>attr_native_unit_of_measurement := native_unit_of_measurement description'\<rparr>"

text \<open>\<open>PairedSensorSensor._async_update_from_latest_data\<close>.\<close>

definition PairedSensorSensor_async_update_from_latest_data ::
  "('v, 'z) heap \<Rightarrow> ('v, 'y) PairedSensorSensor_scheme
     \<Rightarrow> ('v, 'y) PairedSensorSensor_scheme outcome" where
  "PairedSensorSensor_async_update_from_latest_data h self =
     (if key (description self) = SENSOR_KIND_BATTERY then
        (case getitem (data (h (coordinator self))) ''battery'' of
           Inl e \<Rightarrow> Raised e self
         | Inr v \<Rightarrow> Returned (self\<lparr>attr_native_value := Some v\<rparr>))
      else if key (description self) = SENSOR_KIND_TEMPERATURE then
        (case getitem (data (h (coordinator self))) ''temperature'' of
           Inl e \<Rightarrow> Raised e self
         | Inr v \<Rightarrow> Returned (self\<lparr>attr_native_value := Some v\<rparr>))
      else Returned self)"

text \<open>\<open>ValveControllerSensor.__init__\<close>.\<close>

definition ValveControllerSensor_init ::
  "ConfigEntry \<Rightarrow> (string \<rightharpoonup> ref) \<Rightarrow> SensorEntityDescription \<Rightarrow> 'v ValveControllerSensor" where
  "ValveControllerSensor_init entry' coordinators' description' =
     (ValveControllerEntity_init entry' coordinators' description')
       \<lparr>attr_native_unit_of_measurement := native_unit_of_measurement description'\<rparr>"

text \<open>
  \<open>ValveControllerSensor._async_continue_entity_setup\<close>. The method it calls,
  \<open>async_add_coordinator_update_listener\<close>, belongs to the base class; a call of it is
  recorded, with the API name passed, in the list of the calls the entity has made so
  far (oldest first).
\<close>

datatype base_call = Async_add_coordinator_update_listener string

definition ValveControllerSensor_async_continue_entity_setup ::
  "const \<Rightarrow> ('v, 'y) ValveControllerSensor_scheme \<Rightarrow> base_call list \<Rightarrow> base_call list" where
  "ValveControllerSensor_async_continue_entity_setup K self calls =
     (if key (description self) = SENSOR_KIND_TEMPERATURE then
        calls @ [Async_add_coordinator_update_listener (API_SYSTEM_ONBOARD_SENSOR_STATUS K)]
      else calls)"

text \<open>
  \<open>ValveControllerSensor._async_update_from_latest_data\<close>. Each branch is two
  assignments; each right-hand side subscripts \<open>self.coordinators\<close>, and the second
  one the coordinator's \<open>data\<close> as well.
\<close>

definition ValveControllerSensor_async_update_from_latest_data ::
  "const \<Rightarrow> ('v, 'z) heap \<Rightarrow> ('v, 'y) ValveControllerSensor_scheme
     \<Rightarrow> ('v, 'y) ValveControllerSensor_scheme outcome" where
  "ValveControllerSensor_async_update_from_latest_data K h self =
     (if key (description self) = SENSOR_KIND_TEMPERATURE then
        (case getitem (coordinators self) (API_SYSTEM_ONBOARD_SENSOR_STATUS K) of
           Inl e \<Rightarrow> Raised e self
         | Inr c \<Rightarrow>
             let self1 = self\<lparr>attr_available := last_update_success (h c)\<rparr> in
             (case getitem (coordinators self1) (API_SYSTEM_ONBOARD_SENSOR_STATUS K) of
                Inl e \<Rightarrow> Raised e self1
              | Inr c' \<Rightarrow>
                  (case getitem (data (h c')) ''temperature'' of
                     Inl e \<Rightarrow> Raised e self1
                   | Inr v \<Rightarrow> Returned (self1\<lparr>attr_native_value := Some v\<rparr>))))
      else if key (description self) = SENSOR_KIND_UPTIME then
        (case getitem (coordinators self) (API_SYSTEM_DIAGNOSTICS K) of
           Inl e \<Rightarrow> Raised e self
         | Inr c \<Rightarrow>
             let self1 = self\<lparr>attr_available := last_update_success (h c)\<rparr> in
             (case getitem (coordinators self1) (API_SYSTEM_DIAGNOSTICS K) of
                Inl e \<Rightarrow> Raised e self1
              | Inr c' \<Rightarrow>
                  (case getitem (data (h c')) ''uptime'' of
                     Inl e \<Rightarrow> Raised e self1
                   | Inr v \<Rightarrow> Returned (self1\<lparr>attr_native_value := Some v\<rparr>))))
      else Returned self)"

subsection \<open>Setting up the platform\<close>

text \<open>
  A sensor entity of either class, as the list \<open>sensors\<close> of \<open>async_setup_entry\<close>
  holds them.
\<close>

datatype 'v sensor = Paired "'v PairedSensorSensor" | Valve "'v ValveControllerSensor"

text \<open>
  The closure \<open>add_new_paired_sensor\<close> is identified by the config entry it captures.
  \<open>async_dispatcher_connect\<close> connects a target to a signal and returns the function
  that removes the connection again, written \<open>Unsub signal target\<close>.
\<close>

datatype callback = Add_new_paired_sensor ConfigEntry

datatype unsub = Unsub string callback

text \<open>
  \<open>hass.data[DOMAIN]\<close>: per config entry (by \<open>entry_id\<close>) the valve controller's
  coordinators by API name, the paired-sensor coordinators by uid, and the list of
  dispatcher disconnect functions. The paired-sensor dictionary is an association
  list, since the order of its \<open>values()\<close> is the order of the entities created.
\<close>

record domain_data =
  DATA_COORDINATOR :: "string \<rightharpoonup> (string \<rightharpoonup> ref)"
  DATA_COORDINATOR_PAIRED_SENSOR :: "string \<rightharpoonup> (string \<times> ref) list"
  DATA_UNSUB_DISPATCHER_CONNECT :: "string \<rightharpoonup> unsub list"

text \<open>
  The state of the host that the platform set-up touches: \<open>hass.data[DOMAIN]\<close>, the
  dispatcher's connections (signal and target, oldest first), and the calls received
  by the entity-addition callback \<open>async_add_entities\<close> (oldest first): the entities
  passed and the argument \<open>update_before_add\<close>, \<open>None\<close> when the caller leaves it out.
\<close>

record 'v host =
  hass_data :: domain_data
  dispatcher :: "(string \<times> callback) list"
  added :: "('v sensor list \<times> bool option) list"

text \<open>
  The loop \<open>for description in PAIRED_SENSOR_SENSORS: ....append(PairedSensorSensor(entry,
  coordinator, description))\<close>, which sensor.py has twice.
\<close>

fun append_paired_sensors ::
  "ConfigEntry \<Rightarrow> ref \<Rightarrow> SensorEntityDescription list \<Rightarrow> 'v sensor list \<Rightarrow> 'v sensor list" where
  "append_paired_sensors entry' coordinator' [] entities = entities"
| "append_paired_sensors entry' coordinator' (description' # rest) entities =
     append_paired_sensors entry' coordinator' rest
       (entities @ [Paired (PairedSensorSensor_init entry' coordinator' description')])"

text \<open>The callback \<open>add_new_paired_sensor(uid)\<close> of the config entry \<open>entry'\<close>.\<close>

definition add_new_paired_sensor :: "ConfigEntry \<Rightarrow> string \<Rightarrow> 'v host \<Rightarrow> 'v host outcome" where
  "add_new_paired_sensor entry' uid hass =
     (case getitem (DATA_COORDINATOR_PAIRED_SENSOR (hass_data hass)) (entry_id entry') of
        Inl e \<Rightarrow> Raised e hass
      | Inr paired \<Rightarrow>
          (case getitem (map_of paired) uid of
             Inl e \<Rightarrow> Raised e hass
           | Inr coordinator' \<Rightarrow>
               let entities = append_paired_sensors entry' coordinator' PAIRED_SENSOR_SENSORS []
               in Returned (hass\<lparr>added := added hass @ [(entities, Some True)]\<rparr>)))"

text \<open>
  The loop over \<open>VALVE_CONTROLLER_SENSORS\<close>; every round subscripts
  \<open>hass.data[DOMAIN][DATA_COORDINATOR]\<close> with the entry's identifier.
\<close>

fun append_valve_controller_sensors ::
  "ConfigEntry \<Rightarrow> 'v host \<Rightarrow> SensorEntityDescription list \<Rightarrow> 'v sensor list
     \<Rightarrow> py_error + 'v sensor list" where
  "append_valve_controller_sensors entry' hass [] sensors = Inr sensors"
| "append_valve_controller_sensors entry' hass (description' # rest) sensors =
     (case getitem (DATA_COORDINATOR (hass_data hass)) (entry_id entry') of
        Inl e \<Rightarrow> Inl e
      | Inr coordinators' \<Rightarrow>
          append_valve_controller_sensors entry' hass rest
            (sensors @ [Valve (ValveControllerSensor_init entry' coordinators' description')]))"

text \<open>The loop over the \<open>values()\<close> of the entry's paired-sensor coordinators.\<close>

fun append_all_paired_sensors ::
  "ConfigEntry \<Rightarrow> (string \<times> ref) list \<Rightarrow> 'v sensor list \<Rightarrow> 'v sensor list" where
  "append_all_paired_sensors entry' [] sensors = sensors"
| "append_all_paired_sensors entry' ((uid, coordinator') # rest) sensors =
     append_all_paired_sensors entry' rest
       (append_paired_sensors entry' coordinator' PAIRED_SENSOR_SENSORS sensors)"

text \<open>
  \<open>async_setup_entry\<close>. The first statement subscripts the list of disconnect
  functions, then evaluates the argument of \<open>append\<close>: the signal name from
  \<open>entry.data[CONF_UID]\<close> and the connection of the callback.
\<close>

definition async_setup_entry :: "const \<Rightarrow> ConfigEntry \<Rightarrow> 'v host \<Rightarrow> 'v host outcome" where
  "async_setup_entry K entry' hass =
     (case getitem (DATA_UNSUB_DISPATCHER_CONNECT (hass_data hass)) (entry_id entry') of
        Inl e \<Rightarrow> Raised e hass
      | Inr unsubs \<Rightarrow>
          (case getitem (ConfigEntry.data entry') (CONF_UID K) of
             Inl e \<Rightarrow> Raised e hass
           | Inr uid \<Rightarrow>
               let signal = SIGNAL_PAIRED_SENSOR_COORDINATOR_ADDED K uid;
                   target = Add_new_paired_sensor entry';
                   hass1 = hass\<lparr>dispatcher := dispatcher hass @ [(signal, target)]\<rparr>;
                   hass2 = hass1\<lparr>hass_data := (hass_data hass1)
                     \<lparr>DATA_UNSUB_DISPATCHER_CONNECT :=
                        (DATA_UNSUB_DISPATCHER_CONNECT (hass_data hass1))
                          (entry_id entry' \<mapsto> unsubs @ [Unsub signal target])\<rparr>\<rparr>
               in (case append_valve_controller_sensors entry' hass2 VALVE_CONTROLLER_SENSORS [] of
                     Inl e \<Rightarrow> Raised e hass2
                   | Inr sensors \<Rightarrow>
                       (case getitem (DATA_COORDINATOR_PAIRED_SENSOR (hass_data hass2))
                               (entry_id entry') of
                          Inl e \<Rightarrow> Raised e hass2
                        | Inr paired \<Rightarrow>
                            Returned (hass2\<lparr>added := added hass2 @
                              [(append_all_paired_sensors entry' paired sensors, None)]\<rparr>)))))"

subsection \<open>What a registered entity is\<close>

text \<open>
  An entity passed to the entity-addition callback is told from the others by its
  class, its description and the coordinator state it is bound to. They are read off
  the entity's attributes: \<open>_description\<close> and its key, the unit, and
  \<open>coordinator\<close> for a paired sensor or \<open>coordinators\<close> for a valve controller
  sensor.
\<close>

fun sensor_description :: "'v sensor \<Rightarrow> SensorEntityDescription" where
  "sensor_description (Paired p) = description p"
| "sensor_description (Valve v) = description v"

datatype binding = Coordinator ref | Coordinators "string \<rightharpoonup> ref"

fun sensor_binding :: "'v sensor \<Rightarrow> binding" where
  "sensor_binding (Paired p) = Coordinator (coordinator p)"
| "sensor_binding (Valve v) = Coordinators (coordinators v)"

fun sensor_unit :: "'v sensor \<Rightarrow> unit_of_measurement option" where
  "sensor_unit (Paired p) = attr_native_unit_of_measurement p"
| "sensor_unit (Valve v) = attr_native_unit_of_measurement v"

definition sensor_view :: "'v sensor \<Rightarrow> string \<times> unit_of_measurement option \<times> binding" where
  "sensor_view s = (key (sensor_description s), sensor_unit s, sensor_binding s)"

subsection \<open>Sending a signal\<close>

text \<open>
  Calling the closure \<open>add_new_paired_sensor\<close> with an argument runs its body with
  the config entry it has captured.
\<close>

fun call_callback :: "callback \<Rightarrow> string \<Rightarrow> 'v host \<Rightarrow> 'v host outcome" where
  "call_callback (Add_new_paired_sensor entry') uid hass = add_new_paired_sensor entry' uid hass"

text \<open>
  Modelled from the spec: \<open>async_dispatcher_send\<close>, the publishing half of the
  "publish/subscribe signal" by which, in the spec's words, entities are "created and
  added dynamically as new paired sensors are discovered". It belongs to the host;
  sensor.py imports only the subscribing half, \<open>async_dispatcher_connect\<close>. Sending a
  signal with an argument calls each target connected to that signal, in the order of
  connection, with the argument; a target that raises ends the delivery with its
  exception.
\<close>

fun deliver ::
  "(string \<times> callback) list \<Rightarrow> string \<Rightarrow> string \<Rightarrow> 'v host \<Rightarrow> 'v host outcome" where
  "deliver [] signal arg hass = Returned hass"
| "deliver ((connected, target) # rest) signal arg hass =
     (if connected = signal then
        (case call_callback target arg hass of
           Returned hass1 \<Rightarrow> deliver rest signal arg hass1
         | Raised e hass1 \<Rightarrow> Raised e hass1)
      else deliver rest signal arg hass)"

definition async_dispatcher_send :: "string \<Rightarrow> string \<Rightarrow> 'v host \<Rightarrow> 'v host outcome" where
  "async_dispatcher_send signal arg hass = deliver (dispatcher hass) signal arg hass"

subsection \<open>The interface to a coordinator, in the words of the specification\<close>

text \<open>
  The specification names what the module consumes of a coordinator: the \<open>data\<close>
  mapping at the keys "battery", "temperature" and "uptime", and the boolean
  \<open>last_update_success\<close>. Two coordinator states agree on the interface when they
  agree on these four readings; they may differ anywhere else.
\<close>

definition agree_on_interface ::
  "('v, 'z1) DataUpdateCoordinator_scheme \<Rightarrow> ('v, 'z2) DataUpdateCoordinator_scheme \<Rightarrow> bool" where
  "agree_on_interface c1 c2 =
     (data c1 ''battery'' = data c2 ''battery''
      \<and> data c1 ''temperature'' = data c2 ''temperature''
      \<and> data c1 ''uptime'' = data c2 ''uptime''
      \<and> last_update_success c1 = last_update_success c2)"

subsection \<open>Example inputs\<close>

text \<open>
  A concrete installation, used where a result is run on an input: one config entry,
  a valve controller with its two coordinators (references 1 and 2) and two paired
  sensors (references 3 and 4; the examples of single entities use 3). Data values
  are integers.
\<close>

definition example_const :: const where
  "example_const =
     \<lparr>API_SYSTEM_DIAGNOSTICS = ''system_diagnostics'',
      API_SYSTEM_ONBOARD_SENSOR_STATUS = ''system_onboard_sensor_status'',
      CONF_UID = ''uid'',
      SIGNAL_PAIRED_SENSOR_COORDINATOR_ADDED =
        (\<lambda>uid. ''guardian_paired_sensor_coordinator_added_'' @ uid)\<rparr>"

definition example_entry :: ConfigEntry where
  "example_entry = \<lparr>entry_id = ''entry1'', ConfigEntry.data = [''uid'' \<mapsto> ''ABCDEF123456'']\<rparr>"

definition example_heap :: "(int, unit) heap" where
  "example_heap =
     (\<lambda>r. \<lparr>data = Map.empty, last_update_success = False\<rparr>)
       (1 := \<lparr>data = [''temperature'' \<mapsto> 71], last_update_success = True\<rparr>,
        2 := \<lparr>data = [''uptime'' \<mapsto> 41], last_update_success = False\<rparr>,
        3 := \<lparr>data = [''battery'' \<mapsto> 87, ''temperature'' \<mapsto> 68],
              last_update_success = True\<rparr>)"

text \<open>The same coordinators after each has cached one more reading, under "rssi".\<close>

definition example_heap_rssi :: "(int, unit) heap" where
  "example_heap_rssi = (\<lambda>r. (example_heap r)\<lparr>data := (data (example_heap r))(''rssi'' \<mapsto> 5)\<rparr>)"

definition example_coordinators :: "string \<rightharpoonup> ref" where
  "example_coordinators = [''system_onboard_sensor_status'' \<mapsto> 1, ''system_diagnostics'' \<mapsto> 2]"

definition example_host :: "int host" where
  "example_host =
     \<lparr>hass_data =
        \<lparr>DATA_COORDINATOR = [''entry1'' \<mapsto> example_coordinators],
         DATA_COORDINATOR_PAIRED_SENSOR = [''entry1'' \<mapsto> [(''AAA'', 3), (''BBB'', 4)]],
         DATA_UNSUB_DISPATCHER_CONNECT = [''entry1'' \<mapsto> []]\<rparr>,
      dispatcher = [],
      added = []\<rparr>"

text \<open>
  The example host after \<open>async_setup_entry\<close>, once a third paired sensor has been
  discovered and its coordinator (reference 5) registered under the uid "CCC".
\<close>

definition example_host_discovered :: "int host" where
  "example_host_discovered =
     (let hass = state_of (async_setup_entry example_const example_entry example_host)
      in hass\<lparr>hass_data := (hass_data hass)
           \<lparr>DATA_COORDINATOR_PAIRED_SENSOR :=
              [''entry1'' \<mapsto> [(''AAA'', 3), (''BBB'', 4), (''CCC'', 5)]]\<rparr>\<rparr>)"

definition example_paired :: "SensorEntityDescription \<Rightarrow> int PairedSensorSensor" where
  "example_paired d = PairedSensorSensor_init example_entry 3 d"

definition example_valve :: "SensorEntityDescription \<Rightarrow> int ValveControllerSensor" where
  "example_valve d = ValveControllerSensor_init example_entry example_coordinators d"

lemmas example_defs =
  example_const_def example_entry_def example_heap_def
  example_coordinators_def example_paired_def example_valve_def
  PairedSensorSensor_init_def PairedSensorEntity_init_def
  ValveControllerSensor_init_def ValveControllerEntity_init_def
  SENSOR_DESCRIPTION_BATTERY_def SENSOR_DESCRIPTION_TEMPERATURE_def
  SENSOR_DESCRIPTION_UPTIME_def
  SENSOR_KIND_BATTERY_def SENSOR_KIND_TEMPERATURE_def SENSOR_KIND_UPTIME_def

section \<open>Properties\<close>

subsection \<open>Subscripting\<close>

lemma getitem_Some: "m k = Some v \<Longrightarrow> getitem m k = Inr v"
  by (simp add: getitem_def)

lemma getitem_None: "m k = None \<Longrightarrow> getitem m k = Inl (KeyError k)"
  by (simp add: getitem_def)

subsection \<open>The update callbacks select a field\<close>

text \<open>
  C1. For every \<open>PairedSensorSensor\<close>, \<open>_async_update_from_latest_data\<close> sets
  \<open>_attr_native_value\<close> to \<open>coordinator.data["battery"]\<close> when the description key
  is "battery", and to \<open>coordinator.data["temperature"]\<close> when it is "temperature".
  The value \<open>coordinator.data[k]\<close> exists when the mapping holds \<open>k\<close>; the callback
  then returns, and nothing but \<open>_attr_native_value\<close> has changed.
\<close>

theorem paired_update_selects_field:
  "(key (description self) = SENSOR_KIND_BATTERY
      \<and> data (h (coordinator self)) ''battery'' = Some v
    \<longrightarrow> PairedSensorSensor_async_update_from_latest_data h self
          = Returned (self\<lparr>attr_native_value := Some v\<rparr>))
   \<and> (key (description self) = SENSOR_KIND_TEMPERATURE
      \<and> data (h (coordinator self)) ''temperature'' = Some w
    \<longrightarrow> PairedSensorSensor_async_update_from_latest_data h self
          = Returned (self\<lparr>attr_native_value := Some w\<rparr>))"
  by (simp add: PairedSensorSensor_async_update_from_latest_data_def getitem_Some
        SENSOR_KIND_BATTERY_def SENSOR_KIND_TEMPERATURE_def)

theorem paired_update_selects_field_witness:
  "PairedSensorSensor_async_update_from_latest_data example_heap
       (example_paired SENSOR_DESCRIPTION_BATTERY)
     = Returned ((example_paired SENSOR_DESCRIPTION_BATTERY)\<lparr>attr_native_value := Some 87\<rparr>)
   \<and> PairedSensorSensor_async_update_from_latest_data example_heap
       (example_paired SENSOR_DESCRIPTION_TEMPERATURE)
     = Returned ((example_paired SENSOR_DESCRIPTION_TEMPERATURE)\<lparr>attr_native_value := Some 68\<rparr>)"
proof -
  have battery: "key (description (example_paired SENSOR_DESCRIPTION_BATTERY)) = SENSOR_KIND_BATTERY
      \<and> data (example_heap (coordinator (example_paired SENSOR_DESCRIPTION_BATTERY))) ''battery''
        = Some 87"
    by (simp add: example_defs)
  have temperature:
    "key (description (example_paired SENSOR_DESCRIPTION_TEMPERATURE)) = SENSOR_KIND_TEMPERATURE
      \<and> data (example_heap (coordinator (example_paired SENSOR_DESCRIPTION_TEMPERATURE)))
          ''temperature'' = Some 68"
    by (simp add: example_defs)
  from battery temperature
    paired_update_selects_field
      [where self = "example_paired SENSOR_DESCRIPTION_BATTERY" and h = example_heap and v = 87]
    paired_update_selects_field
      [where self = "example_paired SENSOR_DESCRIPTION_TEMPERATURE" and h = example_heap
         and w = 68]
  show ?thesis by blast
qed

text \<open>
  C2. For every \<open>ValveControllerSensor\<close>, \<open>_async_update_from_latest_data\<close> with
  description key "temperature" sets \<open>_attr_available\<close> to the
  onboard-sensor-status coordinator's \<open>last_update_success\<close> and
  \<open>_attr_native_value\<close> to that coordinator's \<open>data["temperature"]\<close>; with key
  "uptime" it does the same from the diagnostics coordinator and \<open>data["uptime"]\<close>.
  The coordinator is the one \<open>self.coordinators\<close> holds under the API name.
\<close>

theorem valve_update_selects_field:
  "(key (description self) = SENSOR_KIND_TEMPERATURE
      \<and> coordinators self (API_SYSTEM_ONBOARD_SENSOR_STATUS K) = Some c
      \<and> data (h c) ''temperature'' = Some v
    \<longrightarrow> ValveControllerSensor_async_update_from_latest_data K h self
          = Returned (self\<lparr>attr_available := last_update_success (h c),
                             attr_native_value := Some v\<rparr>))
   \<and> (key (description self) = SENSOR_KIND_UPTIME
      \<and> coordinators self (API_SYSTEM_DIAGNOSTICS K) = Some d
      \<and> data (h d) ''uptime'' = Some w
    \<longrightarrow> ValveControllerSensor_async_update_from_latest_data K h self
          = Returned (self\<lparr>attr_available := last_update_success (h d),
                             attr_native_value := Some w\<rparr>))"
  by (simp add: ValveControllerSensor_async_update_from_latest_data_def getitem_Some
        SENSOR_KIND_UPTIME_def SENSOR_KIND_TEMPERATURE_def)

theorem valve_update_selects_field_witness:
  "ValveControllerSensor_async_update_from_latest_data example_const example_heap
       (example_valve SENSOR_DESCRIPTION_TEMPERATURE)
     = Returned ((example_valve SENSOR_DESCRIPTION_TEMPERATURE)
         \<lparr>attr_available := True, attr_native_value := Some 71\<rparr>)
   \<and> ValveControllerSensor_async_update_from_latest_data example_const example_heap
       (example_valve SENSOR_DESCRIPTION_UPTIME)
     = Returned ((example_valve SENSOR_DESCRIPTION_UPTIME)
         \<lparr>attr_available := False, attr_native_value := Some 41\<rparr>)"
proof -
  have temperature:
    "key (description (example_valve SENSOR_DESCRIPTION_TEMPERATURE)) = SENSOR_KIND_TEMPERATURE
      \<and> coordinators (example_valve SENSOR_DESCRIPTION_TEMPERATURE)
          (API_SYSTEM_ONBOARD_SENSOR_STATUS example_const) = Some 1
      \<and> data (example_heap 1) ''temperature'' = Some 71
      \<and> last_update_success (example_heap 1) = True"
    by (simp add: example_defs)
  have uptime:
    "key (description (example_valve SENSOR_DESCRIPTION_UPTIME)) = SENSOR_KIND_UPTIME
      \<and> coordinators (example_valve SENSOR_DESCRIPTION_UPTIME)
          (API_SYSTEM_DIAGNOSTICS example_const) = Some 2
      \<and> data (example_heap 2) ''uptime'' = Some 41
      \<and> last_update_success (example_heap 2) = False"
    by (simp add: example_defs)
  from temperature uptime
    valve_update_selects_field
      [where self = "example_valve SENSOR_DESCRIPTION_TEMPERATURE" and K = example_const
         and h = example_heap and c = 1 and v = 71]
    valve_update_selects_field
      [where self = "example_valve SENSOR_DESCRIPTION_UPTIME" and K = example_const
         and h = example_heap and d = 2 and w = 41]
  show ?thesis by simp
qed

subsection \<open>Creating the entities\<close>

lemma append_paired_sensors_eq:
  "append_paired_sensors e c ds entities
   = entities @ map (\<lambda>d. Paired (PairedSensorSensor_init e c d)) ds"
  by (induction ds arbitrary: entities) simp_all

lemma append_all_paired_sensors_eq:
  "append_all_paired_sensors e paired sensors
   = sensors @ concat (map (\<lambda>(uid, c).
       map (\<lambda>d. Paired (PairedSensorSensor_init e c d)) PAIRED_SENSOR_SENSORS) paired)"
proof (induction paired arbitrary: sensors)
  case Nil
  show ?case by simp
next
  case (Cons x paired)
  obtain uid c where x: "x = (uid, c)" by (cases x)
  show ?case
    by (simp add: x Cons.IH append_paired_sensors_eq)
qed

lemma append_valve_controller_sensors_eq:
  assumes "DATA_COORDINATOR (hass_data hass) (entry_id e) = Some cs"
  shows "append_valve_controller_sensors e hass ds sensors
         = Inr (sensors @ map (\<lambda>d. Valve (ValveControllerSensor_init e cs d)) ds)"
  using assms by (induction ds arbitrary: sensors) (simp_all add: getitem_def)

text \<open>
  The whole effect of \<open>async_setup_entry\<close> when the four subscripts find their keys:
  one more disconnect function in the entry's list, one more dispatcher connection,
  one more call of the entity-addition callback.
\<close>

lemma async_setup_entry_returns:
  assumes "DATA_UNSUB_DISPATCHER_CONNECT (hass_data hass) (entry_id e) = Some unsubs"
    and "ConfigEntry.data e (CONF_UID K) = Some uid"
    and "DATA_COORDINATOR (hass_data hass) (entry_id e) = Some cs"
    and "DATA_COORDINATOR_PAIRED_SENSOR (hass_data hass) (entry_id e) = Some paired"
  shows "async_setup_entry K e hass =
     Returned (hass\<lparr>
       hass_data := (hass_data hass)\<lparr>DATA_UNSUB_DISPATCHER_CONNECT :=
         (DATA_UNSUB_DISPATCHER_CONNECT (hass_data hass))(entry_id e \<mapsto> unsubs @
           [Unsub (SIGNAL_PAIRED_SENSOR_COORDINATOR_ADDED K uid) (Add_new_paired_sensor e)])\<rparr>,
       dispatcher := dispatcher hass @
         [(SIGNAL_PAIRED_SENSOR_COORDINATOR_ADDED K uid, Add_new_paired_sensor e)],
       added := added hass @
         [(map (\<lambda>d. Valve (ValveControllerSensor_init e cs d)) VALVE_CONTROLLER_SENSORS @
           concat (map (\<lambda>(uid, c).
             map (\<lambda>d. Paired (PairedSensorSensor_init e c d)) PAIRED_SENSOR_SENSORS) paired),
           None)]\<rparr>)"
proof -
  let ?signal = "SIGNAL_PAIRED_SENSOR_COORDINATOR_ADDED K uid"
  let ?hass1 = "hass\<lparr>dispatcher := dispatcher hass @ [(?signal, Add_new_paired_sensor e)]\<rparr>"
  let ?hass2 = "?hass1\<lparr>hass_data := (hass_data ?hass1)\<lparr>DATA_UNSUB_DISPATCHER_CONNECT :=
         (DATA_UNSUB_DISPATCHER_CONNECT (hass_data ?hass1))(entry_id e \<mapsto> unsubs @
           [Unsub ?signal (Add_new_paired_sensor e)])\<rparr>\<rparr>"
  have cs: "DATA_COORDINATOR (hass_data ?hass2) (entry_id e) = Some cs"
    using assms(3) by simp
  have valve: "append_valve_controller_sensors e ?hass2 VALVE_CONTROLLER_SENSORS []
      = Inr (map (\<lambda>d. Valve (ValveControllerSensor_init e cs d)) VALVE_CONTROLLER_SENSORS)"
    using append_valve_controller_sensors_eq[OF cs, of VALVE_CONTROLLER_SENSORS "[]"] by simp
  show ?thesis
    using assms(1,2,4) valve
    by (simp add: async_setup_entry_def getitem_def Let_def append_all_paired_sensors_eq)
qed

text \<open>
  The connection of the callback is made before any entity is created, so it is in
  the state reached whether the rest of the set-up returns or raises.
\<close>

lemma async_setup_entry_connects:
  assumes "DATA_UNSUB_DISPATCHER_CONNECT (hass_data hass) (entry_id e) = Some unsubs"
    and "ConfigEntry.data e (CONF_UID K) = Some uid"
  shows "dispatcher (state_of (async_setup_entry K e hass))
         = dispatcher hass @
             [(SIGNAL_PAIRED_SENSOR_COORDINATOR_ADDED K uid, Add_new_paired_sensor e)]"
  using assms
  by (simp add: async_setup_entry_def getitem_def Let_def split: sum.split option.split)

lemma add_new_paired_sensor_returns:
  assumes "DATA_COORDINATOR_PAIRED_SENSOR (hass_data hass) (entry_id e) = Some paired"
    and "map_of paired uid = Some c"
  shows "add_new_paired_sensor e uid hass =
     Returned (hass\<lparr>added := added hass @
       [(map (\<lambda>d. Paired (PairedSensorSensor_init e c d)) PAIRED_SENSOR_SENSORS, Some True)]\<rparr>)"
  using assms
  by (simp add: add_new_paired_sensor_def getitem_def append_paired_sensors_eq)

lemma paired_sensor_view:
  "sensor_view (Paired (PairedSensorSensor_init e c d))
   = (key d, native_unit_of_measurement d, Coordinator c)"
  by (simp add: sensor_view_def PairedSensorSensor_init_def PairedSensorEntity_init_def)

lemma valve_sensor_view:
  "sensor_view (Valve (ValveControllerSensor_init e cs d))
   = (key d, native_unit_of_measurement d, Coordinators cs)"
  by (simp add: sensor_view_def ValveControllerSensor_init_def ValveControllerEntity_init_def)

lemma init_description:
  "description (PairedSensorSensor_init e c d) = d"
  "description (ValveControllerSensor_init e cs d) = d"
  by (simp_all add: PairedSensorSensor_init_def PairedSensorEntity_init_def
        ValveControllerSensor_init_def ValveControllerEntity_init_def)

lemma description_views:
  "(key SENSOR_DESCRIPTION_BATTERY, native_unit_of_measurement SENSOR_DESCRIPTION_BATTERY)
     = (''battery'', Some PERCENTAGE)"
  "(key SENSOR_DESCRIPTION_TEMPERATURE, native_unit_of_measurement SENSOR_DESCRIPTION_TEMPERATURE)
     = (''temperature'', Some TEMP_FAHRENHEIT)"
  "(key SENSOR_DESCRIPTION_UPTIME, native_unit_of_measurement SENSOR_DESCRIPTION_UPTIME)
     = (''uptime'', Some TIME_MINUTES)"
  by (simp_all add: SENSOR_DESCRIPTION_BATTERY_def SENSOR_DESCRIPTION_TEMPERATURE_def
        SENSOR_DESCRIPTION_UPTIME_def SENSOR_KIND_BATTERY_def SENSOR_KIND_TEMPERATURE_def
        SENSOR_KIND_UPTIME_def)

lemma all_paired_views:
  "map sensor_view (concat (map (\<lambda>(uid, c).
       map (\<lambda>d. Paired (PairedSensorSensor_init e c d)) PAIRED_SENSOR_SENSORS) paired))
   = concat (map (\<lambda>(uid, c).
       [(''battery'', Some PERCENTAGE, Coordinator c),
        (''temperature'', Some TEMP_FAHRENHEIT, Coordinator c)]) paired)"
proof (induction paired)
  case Nil
  show ?case by simp
next
  case (Cons x paired)
  obtain uid c where x: "x = (uid, c)" by (cases x)
  from description_views(1,2) have
    "map (\<lambda>d. sensor_view (Paired (PairedSensorSensor_init e c d))) PAIRED_SENSOR_SENSORS
     = [(''battery'', Some PERCENTAGE, Coordinator c),
        (''temperature'', Some TEMP_FAHRENHEIT, Coordinator c)]"
    by (simp add: paired_sensor_view PAIRED_SENSOR_SENSORS_def)
  with Cons.IH show ?case
    by (simp add: x comp_def)
qed

lemma all_paired_descriptions:
  "map sensor_description (concat (map (\<lambda>(uid, c).
       map (\<lambda>d. Paired (PairedSensorSensor_init e c d)) PAIRED_SENSOR_SENSORS) paired))
   = concat (map (\<lambda>x. PAIRED_SENSOR_SENSORS) paired)"
proof (induction paired)
  case Nil
  show ?case by simp
next
  case (Cons x paired)
  obtain uid c where x: "x = (uid, c)" by (cases x)
  have "map (\<lambda>d. sensor_description (Paired (PairedSensorSensor_init e c d))) ds = ds" for ds
    by (simp add: init_description map_idI)
  with Cons.IH show ?case
    by (simp add: x comp_def)
qed

text \<open>Delivery skips the targets connected to other signals.\<close>

lemma deliver_other_signals:
  assumes "\<forall>x \<in> set pre. fst x \<noteq> signal"
  shows "deliver (pre @ rest) signal arg hass = deliver rest signal arg hass"
  using assms by (induction pre) auto

text \<open>
  C3. \<open>async_setup_entry\<close> registers exactly one \<open>ValveControllerSensor\<close> per
  description in \<open>VALVE_CONTROLLER_SENSORS\<close> (temperature and uptime) plus, for every
  paired-sensor coordinator already present for the config entry, one
  \<open>PairedSensorSensor\<close> per description in \<open>PAIRED_SENSOR_SENSORS\<close> (battery and
  temperature), all passed to the host's entity-addition callback; so
  valve-controller entities expose temperature and uptime while paired-sensor
  entities expose battery and temperature. The set-up returns when \<open>hass.data\<close>
  holds the entry's three slots and the entry's data holds the uid. It then has
  called the callback once more, without the argument \<open>update_before_add\<close>, and the
  entities passed are, in this order and with nothing else: two valve controller
  sensors of kind "temperature" and "uptime", bound to the entry's coordinators, and
  for each paired-sensor coordinator two paired sensors of kind "battery" and
  "temperature", bound to that coordinator. The descriptions of the entities are the
  two tables, the second once per paired-sensor coordinator.
\<close>

theorem async_setup_entry_registers:
  assumes "DATA_UNSUB_DISPATCHER_CONNECT (hass_data hass) (entry_id e) = Some unsubs"
    and "ConfigEntry.data e (CONF_UID K) = Some uid"
    and "DATA_COORDINATOR (hass_data hass) (entry_id e) = Some cs"
    and "DATA_COORDINATOR_PAIRED_SENSOR (hass_data hass) (entry_id e) = Some paired"
  shows "raised (async_setup_entry K e hass) = None
    \<and> added (state_of (async_setup_entry K e hass)) = added hass @
        [([Valve (ValveControllerSensor_init e cs SENSOR_DESCRIPTION_TEMPERATURE),
           Valve (ValveControllerSensor_init e cs SENSOR_DESCRIPTION_UPTIME)] @
          concat (map (\<lambda>(uid, c).
            [Paired (PairedSensorSensor_init e c SENSOR_DESCRIPTION_BATTERY),
             Paired (PairedSensorSensor_init e c SENSOR_DESCRIPTION_TEMPERATURE)]) paired),
          None)]
    \<and> map sensor_view (fst (last (added (state_of (async_setup_entry K e hass))))) =
        [(''temperature'', Some TEMP_FAHRENHEIT, Coordinators cs),
         (''uptime'', Some TIME_MINUTES, Coordinators cs)] @
        concat (map (\<lambda>(uid, c).
          [(''battery'', Some PERCENTAGE, Coordinator c),
           (''temperature'', Some TEMP_FAHRENHEIT, Coordinator c)]) paired)
    \<and> map sensor_description (fst (last (added (state_of (async_setup_entry K e hass))))) =
        VALVE_CONTROLLER_SENSORS @ concat (map (\<lambda>x. PAIRED_SENSOR_SENSORS) paired)"
proof -
  let ?valves = "map (\<lambda>d. Valve (ValveControllerSensor_init e cs d)) VALVE_CONTROLLER_SENSORS"
  let ?paireds = "concat (map (\<lambda>(uid, c).
      map (\<lambda>d. Paired (PairedSensorSensor_init e c d)) PAIRED_SENSOR_SENSORS) paired)"
  have passed: "fst (last (added (state_of (async_setup_entry K e hass)))) = ?valves @ ?paireds"
    by (simp add: async_setup_entry_returns[OF assms])
  have valve_views: "map sensor_view ?valves =
      [(''temperature'', Some TEMP_FAHRENHEIT, Coordinators cs),
       (''uptime'', Some TIME_MINUTES, Coordinators cs)]"
    using description_views(2,3) by (simp add: VALVE_CONTROLLER_SENSORS_def valve_sensor_view)
  have valve_descriptions: "map sensor_description ?valves = VALVE_CONTROLLER_SENSORS"
    by (simp add: VALVE_CONTROLLER_SENSORS_def init_description)
  have "raised (async_setup_entry K e hass) = None"
    by (simp add: async_setup_entry_returns[OF assms])
  moreover have "added (state_of (async_setup_entry K e hass)) = added hass @
        [([Valve (ValveControllerSensor_init e cs SENSOR_DESCRIPTION_TEMPERATURE),
           Valve (ValveControllerSensor_init e cs SENSOR_DESCRIPTION_UPTIME)] @
          concat (map (\<lambda>(uid, c).
            [Paired (PairedSensorSensor_init e c SENSOR_DESCRIPTION_BATTERY),
             Paired (PairedSensorSensor_init e c SENSOR_DESCRIPTION_TEMPERATURE)]) paired),
          None)]"
    by (simp add: async_setup_entry_returns[OF assms] VALVE_CONTROLLER_SENSORS_def
          PAIRED_SENSOR_SENSORS_def)
  moreover have "map sensor_view (fst (last (added (state_of (async_setup_entry K e hass))))) =
        [(''temperature'', Some TEMP_FAHRENHEIT, Coordinators cs),
         (''uptime'', Some TIME_MINUTES, Coordinators cs)] @
        concat (map (\<lambda>(uid, c).
          [(''battery'', Some PERCENTAGE, Coordinator c),
           (''temperature'', Some TEMP_FAHRENHEIT, Coordinator c)]) paired)"
    unfolding passed map_append valve_views all_paired_views ..
  moreover have
    "map sensor_description (fst (last (added (state_of (async_setup_entry K e hass))))) =
        VALVE_CONTROLLER_SENSORS @ concat (map (\<lambda>x. PAIRED_SENSOR_SENSORS) paired)"
    unfolding passed map_append valve_descriptions all_paired_descriptions ..
  ultimately show ?thesis by blast
qed

text \<open>
  The example has two paired sensors. Every entity passed is spelt out with its
  attributes; the six are pairwise different.
\<close>

theorem async_setup_entry_registers_witness:
  "raised (async_setup_entry example_const example_entry example_host) = None
   \<and> added (state_of (async_setup_entry example_const example_entry example_host)) =
       [([Valve \<lparr>entry = example_entry, description = SENSOR_DESCRIPTION_TEMPERATURE,
                 attr_available = True, attr_native_unit_of_measurement = Some TEMP_FAHRENHEIT,
                 attr_native_value = None, coordinators = example_coordinators\<rparr>,
          Valve \<lparr>entry = example_entry, description = SENSOR_DESCRIPTION_UPTIME,
                 attr_available = True, attr_native_unit_of_measurement = Some TIME_MINUTES,
                 attr_native_value = None, coordinators = example_coordinators\<rparr>,
          Paired \<lparr>entry = example_entry, description = SENSOR_DESCRIPTION_BATTERY,
                  attr_available = True, attr_native_unit_of_measurement = Some PERCENTAGE,
                  attr_native_value = None, coordinator = 3\<rparr>,
          Paired \<lparr>entry = example_entry, description = SENSOR_DESCRIPTION_TEMPERATURE,
                  attr_available = True, attr_native_unit_of_measurement = Some TEMP_FAHRENHEIT,
                  attr_native_value = None, coordinator = 3\<rparr>,
          Paired \<lparr>entry = example_entry, description = SENSOR_DESCRIPTION_BATTERY,
                  attr_available = True, attr_native_unit_of_measurement = Some PERCENTAGE,
                  attr_native_value = None, coordinator = 4\<rparr>,
          Paired \<lparr>entry = example_entry, description = SENSOR_DESCRIPTION_TEMPERATURE,
                  attr_available = True, attr_native_unit_of_measurement = Some TEMP_FAHRENHEIT,
                  attr_native_value = None, coordinator = 4\<rparr>], None)]
   \<and> map sensor_view
         (fst (last (added (state_of (async_setup_entry example_const example_entry example_host))))) =
       [(''temperature'', Some TEMP_FAHRENHEIT, Coordinators example_coordinators),
        (''uptime'', Some TIME_MINUTES, Coordinators example_coordinators),
        (''battery'', Some PERCENTAGE, Coordinator 3),
        (''temperature'', Some TEMP_FAHRENHEIT, Coordinator 3),
        (''battery'', Some PERCENTAGE, Coordinator 4),
        (''temperature'', Some TEMP_FAHRENHEIT, Coordinator 4)]
   \<and> distinct (map sensor_view
         (fst (last (added (state_of (async_setup_entry example_const example_entry example_host))))))"
proof -
  have unsubs: "DATA_UNSUB_DISPATCHER_CONNECT (hass_data example_host) (entry_id example_entry)
      = Some []"
    by (simp add: example_host_def example_entry_def)
  have uid: "ConfigEntry.data example_entry (CONF_UID example_const) = Some ''ABCDEF123456''"
    by (simp add: example_entry_def example_const_def)
  have cs: "DATA_COORDINATOR (hass_data example_host) (entry_id example_entry)
      = Some example_coordinators"
    by (simp add: example_host_def example_entry_def)
  have paired: "DATA_COORDINATOR_PAIRED_SENSOR (hass_data example_host) (entry_id example_entry)
      = Some [(''AAA'', 3), (''BBB'', 4)]"
    by (simp add: example_host_def example_entry_def)
  have none: "added example_host = []"
    by (simp add: example_host_def)
  note registers = async_setup_entry_registers[OF unsubs uid cs paired]
  have views: "map sensor_view
         (fst (last (added (state_of (async_setup_entry example_const example_entry example_host))))) =
       [(''temperature'', Some TEMP_FAHRENHEIT, Coordinators example_coordinators),
        (''uptime'', Some TIME_MINUTES, Coordinators example_coordinators),
        (''battery'', Some PERCENTAGE, Coordinator 3),
        (''temperature'', Some TEMP_FAHRENHEIT, Coordinator 3),
        (''battery'', Some PERCENTAGE, Coordinator 4),
        (''temperature'', Some TEMP_FAHRENHEIT, Coordinator 4)]"
  proof -
    from registers have "map sensor_view
         (fst (last (added (state_of (async_setup_entry example_const example_entry example_host))))) =
        [(''temperature'', Some TEMP_FAHRENHEIT, Coordinators example_coordinators),
         (''uptime'', Some TIME_MINUTES, Coordinators example_coordinators)] @
        concat (map (\<lambda>(uid, c).
          [(''battery'', Some PERCENTAGE, Coordinator c),
           (''temperature'', Some TEMP_FAHRENHEIT, Coordinator c)]) [(''AAA'', 3), (''BBB'', 4)])"
      by blast
    then show ?thesis by simp
  qed
  have different: "distinct
       [(''temperature'', Some TEMP_FAHRENHEIT, Coordinators example_coordinators),
        (''uptime'', Some TIME_MINUTES, Coordinators example_coordinators),
        (''battery'', Some PERCENTAGE, Coordinator 3),
        (''temperature'', Some TEMP_FAHRENHEIT, Coordinator 3),
        (''battery'', Some PERCENTAGE, Coordinator 4),
        (''temperature'', Some TEMP_FAHRENHEIT, Coordinator (4::nat))]"
    by simp
  have entities: "added (state_of (async_setup_entry example_const example_entry example_host)) =
       [([Valve \<lparr>entry = example_entry, description = SENSOR_DESCRIPTION_TEMPERATURE,
                 attr_available = True, attr_native_unit_of_measurement = Some TEMP_FAHRENHEIT,
                 attr_native_value = None, coordinators = example_coordinators\<rparr>,
          Valve \<lparr>entry = example_entry, description = SENSOR_DESCRIPTION_UPTIME,
                 attr_available = True, attr_native_unit_of_measurement = Some TIME_MINUTES,
                 attr_native_value = None, coordinators = example_coordinators\<rparr>,
          Paired \<lparr>entry = example_entry, description = SENSOR_DESCRIPTION_BATTERY,
                  attr_available = True, attr_native_unit_of_measurement = Some PERCENTAGE,
                  attr_native_value = None, coordinator = 3\<rparr>,
          Paired \<lparr>entry = example_entry, description = SENSOR_DESCRIPTION_TEMPERATURE,
                  attr_available = True, attr_native_unit_of_measurement = Some TEMP_FAHRENHEIT,
                  attr_native_value = None, coordinator = 3\<rparr>,
          Paired \<lparr>entry = example_entry, description = SENSOR_DESCRIPTION_BATTERY,
                  attr_available = True, attr_native_unit_of_measurement = Some PERCENTAGE,
                  attr_native_value = None, coordinator = 4\<rparr>,
          Paired \<lparr>entry = example_entry, description = SENSOR_DESCRIPTION_TEMPERATURE,
                  attr_available = True, attr_native_unit_of_measurement = Some TEMP_FAHRENHEIT,
                  attr_native_value = None, coordinator = 4\<rparr>], None)]"
    using registers none description_views
    by (simp add: PairedSensorSensor_init_def PairedSensorEntity_init_def
          ValveControllerSensor_init_def ValveControllerEntity_init_def)
  from registers entities views different show ?thesis
    by simp
qed

text \<open>
  C4. When the paired-sensor-coordinator-added dispatcher signal fires with a uid,
  the \<open>add_new_paired_sensor\<close> callback creates one \<open>PairedSensorSensor\<close> for each
  description in \<open>PAIRED_SENSOR_SENSORS\<close> (battery and temperature), bound to the
  coordinator registered under that uid, and adds them via the entity-addition
  callback with an initial update requested. In order: what the callback does when a
  coordinator is registered under the uid, and what the two entities it passes are
  (their kinds, units, binding and descriptions); what the constructor stores; that
  \<open>async_setup_entry\<close> connects this callback to the signal of the entry's uid; and
  that sending this signal with a uid, the callback being the one target connected
  to it, is running the callback with that uid.
\<close>

theorem add_new_paired_sensor_adds:
  "(DATA_COORDINATOR_PAIRED_SENSOR (hass_data hass) (entry_id e) = Some paired
      \<and> map_of paired uid = Some c
    \<longrightarrow> add_new_paired_sensor e uid hass =
          Returned (hass\<lparr>added := added hass @
            [([Paired (PairedSensorSensor_init e c SENSOR_DESCRIPTION_BATTERY),
               Paired (PairedSensorSensor_init e c SENSOR_DESCRIPTION_TEMPERATURE)],
              Some True)]\<rparr>)
        \<and> map sensor_view (fst (last (added (state_of (add_new_paired_sensor e uid hass))))) =
            [(''battery'', Some PERCENTAGE, Coordinator c),
             (''temperature'', Some TEMP_FAHRENHEIT, Coordinator c)]
        \<and> map sensor_description
              (fst (last (added (state_of (add_new_paired_sensor e uid hass))))) =
            PAIRED_SENSOR_SENSORS)
   \<and> coordinator (PairedSensorSensor_init e c d :: 'v PairedSensorSensor) = c
   \<and> description (PairedSensorSensor_init e c d :: 'v PairedSensorSensor) = d
   \<and> (DATA_UNSUB_DISPATCHER_CONNECT (hass_data hass') (entry_id e) = Some unsubs
      \<and> ConfigEntry.data e (CONF_UID K) = Some uid'
    \<longrightarrow> dispatcher (state_of (async_setup_entry K e (hass' :: 'v host)))
          = dispatcher hass' @
              [(SIGNAL_PAIRED_SENSOR_COORDINATOR_ADDED K uid', Add_new_paired_sensor e)])
   \<and> (dispatcher hass = pre @ [(signal, Add_new_paired_sensor e)]
      \<and> (\<forall>x \<in> set pre. fst x \<noteq> signal)
    \<longrightarrow> async_dispatcher_send signal uid hass = add_new_paired_sensor e uid hass)"
proof (intro conjI impI)
  assume found: "DATA_COORDINATOR_PAIRED_SENSOR (hass_data hass) (entry_id e) = Some paired
      \<and> map_of paired uid = Some c"
  then have returns: "add_new_paired_sensor e uid hass =
      Returned (hass\<lparr>added := added hass @
        [(map (\<lambda>d. Paired (PairedSensorSensor_init e c d)) PAIRED_SENSOR_SENSORS, Some True)]\<rparr>)"
    by (simp add: add_new_paired_sensor_returns)
  show "add_new_paired_sensor e uid hass =
          Returned (hass\<lparr>added := added hass @
            [([Paired (PairedSensorSensor_init e c SENSOR_DESCRIPTION_BATTERY),
               Paired (PairedSensorSensor_init e c SENSOR_DESCRIPTION_TEMPERATURE)],
              Some True)]\<rparr>)"
    by (simp add: returns PAIRED_SENSOR_SENSORS_def)
  show "map sensor_view (fst (last (added (state_of (add_new_paired_sensor e uid hass))))) =
            [(''battery'', Some PERCENTAGE, Coordinator c),
             (''temperature'', Some TEMP_FAHRENHEIT, Coordinator c)]"
    using description_views(1,2)
    by (simp add: returns PAIRED_SENSOR_SENSORS_def paired_sensor_view)
  show "map sensor_description
          (fst (last (added (state_of (add_new_paired_sensor e uid hass))))) =
        PAIRED_SENSOR_SENSORS"
    by (simp add: returns PAIRED_SENSOR_SENSORS_def init_description)
next
  show "coordinator (PairedSensorSensor_init e c d :: 'v PairedSensorSensor) = c"
    by (simp add: PairedSensorSensor_init_def PairedSensorEntity_init_def)
next
  show "description (PairedSensorSensor_init e c d :: 'v PairedSensorSensor) = d"
    by (simp add: PairedSensorSensor_init_def PairedSensorEntity_init_def)
next
  assume "DATA_UNSUB_DISPATCHER_CONNECT (hass_data hass') (entry_id e) = Some unsubs
      \<and> ConfigEntry.data e (CONF_UID K) = Some uid'"
  then show "dispatcher (state_of (async_setup_entry K e hass'))
          = dispatcher hass' @
              [(SIGNAL_PAIRED_SENSOR_COORDINATOR_ADDED K uid', Add_new_paired_sensor e)]"
    by (simp add: async_setup_entry_connects)
next
  assume connected: "dispatcher hass = pre @ [(signal, Add_new_paired_sensor e)]
      \<and> (\<forall>x \<in> set pre. fst x \<noteq> signal)"
  then have "async_dispatcher_send signal uid hass
      = deliver [(signal, Add_new_paired_sensor e)] signal uid hass"
    by (simp add: async_dispatcher_send_def deliver_other_signals)
  also have "\<dots> = add_new_paired_sensor e uid hass"
    by (cases "add_new_paired_sensor e uid hass") simp_all
  finally show "async_dispatcher_send signal uid hass = add_new_paired_sensor e uid hass" .
qed

text \<open>
  The example sets the platform up, registers a third paired sensor under "CCC" and
  sends the signal with "CCC": the entity-addition callback receives a second call,
  with the battery and the temperature sensor of coordinator 5.
\<close>

theorem add_new_paired_sensor_adds_witness:
  "dispatcher example_host_discovered
     = [(''guardian_paired_sensor_coordinator_added_ABCDEF123456'',
         Add_new_paired_sensor example_entry)]
   \<and> length (added example_host_discovered) = 1
   \<and> async_dispatcher_send ''guardian_paired_sensor_coordinator_added_ABCDEF123456'' ''CCC''
         example_host_discovered
     = Returned (example_host_discovered\<lparr>added := added example_host_discovered @
         [([Paired \<lparr>entry = example_entry, description = SENSOR_DESCRIPTION_BATTERY,
                    attr_available = True, attr_native_unit_of_measurement = Some PERCENTAGE,
                    attr_native_value = None, coordinator = 5\<rparr>,
            Paired \<lparr>entry = example_entry, description = SENSOR_DESCRIPTION_TEMPERATURE,
                    attr_available = True,
                    attr_native_unit_of_measurement = Some TEMP_FAHRENHEIT,
                    attr_native_value = None, coordinator = 5\<rparr>], Some True)]\<rparr>)
   \<and> map sensor_view (fst (last (added (state_of
         (async_dispatcher_send ''guardian_paired_sensor_coordinator_added_ABCDEF123456''
            ''CCC'' example_host_discovered)))))
     = [(''battery'', Some PERCENTAGE, Coordinator 5),
        (''temperature'', Some TEMP_FAHRENHEIT, Coordinator 5)]"
proof -
  let ?signal = "''guardian_paired_sensor_coordinator_added_ABCDEF123456''"
  let ?after = "state_of (async_setup_entry example_const example_entry example_host)"
  have entry_ok: "DATA_UNSUB_DISPATCHER_CONNECT (hass_data example_host) (entry_id example_entry)
      = Some []
    \<and> ConfigEntry.data example_entry (CONF_UID example_const) = Some ''ABCDEF123456''"
    by (simp add: example_host_def example_entry_def example_const_def)
  have slots: "DATA_UNSUB_DISPATCHER_CONNECT (hass_data example_host) (entry_id example_entry)
      = Some []"
    "ConfigEntry.data example_entry (CONF_UID example_const) = Some ''ABCDEF123456''"
    "DATA_COORDINATOR (hass_data example_host) (entry_id example_entry)
      = Some example_coordinators"
    "DATA_COORDINATOR_PAIRED_SENSOR (hass_data example_host) (entry_id example_entry)
      = Some [(''AAA'', 3), (''BBB'', 4)]"
    by (simp_all add: example_host_def example_entry_def example_const_def)
  have none: "added example_host = []"
    by (simp add: example_host_def)
  have once: "length (added ?after) = 1"
    by (simp add: async_setup_entry_returns[OF slots] none)
  have signal: "SIGNAL_PAIRED_SENSOR_COORDINATOR_ADDED example_const ''ABCDEF123456'' = ?signal"
    by (simp add: example_const_def)
  have start: "dispatcher example_host = []"
    by (simp add: example_host_def)
  note fact = add_new_paired_sensor_adds
      [where hass = example_host_discovered and e = example_entry
         and paired = "[(''AAA'', 3), (''BBB'', 4), (''CCC'', 5)]"
         and uid = "''CCC''" and c = 5 and d = SENSOR_DESCRIPTION_BATTERY
         and hass' = example_host and unsubs = "[]" and K = example_const
         and uid' = "''ABCDEF123456''" and pre = "[]" and signal = ?signal]
  have connected: "dispatcher example_host_discovered = [(?signal, Add_new_paired_sensor example_entry)]"
    using fact entry_ok signal start by (simp add: example_host_discovered_def Let_def)
  have found: "DATA_COORDINATOR_PAIRED_SENSOR (hass_data example_host_discovered)
        (entry_id example_entry) = Some [(''AAA'', 3), (''BBB'', 4), (''CCC'', 5)]
      \<and> map_of [(''AAA'', 3), (''BBB'', 4), (''CCC'', 5::nat)] ''CCC'' = Some 5"
    by (simp add: example_host_discovered_def Let_def example_entry_def)
  have sent: "async_dispatcher_send ?signal ''CCC'' example_host_discovered
      = add_new_paired_sensor example_entry ''CCC'' example_host_discovered"
    using fact connected by simp
  have calls: "length (added example_host_discovered) = 1"
    using once by (simp add: example_host_discovered_def Let_def)
  from fact found have result:
    "add_new_paired_sensor example_entry ''CCC'' example_host_discovered =
       Returned (example_host_discovered\<lparr>added := added example_host_discovered @
         [([Paired (PairedSensorSensor_init example_entry 5 SENSOR_DESCRIPTION_BATTERY),
            Paired (PairedSensorSensor_init example_entry 5 SENSOR_DESCRIPTION_TEMPERATURE)],
           Some True)]\<rparr>)"
    and views: "map sensor_view (fst (last (added (state_of
         (add_new_paired_sensor example_entry ''CCC'' example_host_discovered)))))
     = [(''battery'', Some PERCENTAGE, Coordinator 5),
        (''temperature'', Some TEMP_FAHRENHEIT, Coordinator 5)]"
    by blast+
  from result description_views have spelt:
    "add_new_paired_sensor example_entry ''CCC'' example_host_discovered =
       Returned (example_host_discovered\<lparr>added := added example_host_discovered @
         [([Paired \<lparr>entry = example_entry, description = SENSOR_DESCRIPTION_BATTERY,
                    attr_available = True, attr_native_unit_of_measurement = Some PERCENTAGE,
                    attr_native_value = None, coordinator = 5\<rparr>,
            Paired \<lparr>entry = example_entry, description = SENSOR_DESCRIPTION_TEMPERATURE,
                    attr_available = True,
                    attr_native_unit_of_measurement = Some TEMP_FAHRENHEIT,
                    attr_native_value = None, coordinator = 5\<rparr>], Some True)]\<rparr>)"
    by (simp add: PairedSensorSensor_init_def PairedSensorEntity_init_def)
  from connected calls sent spelt views show ?thesis
    by simp
qed

subsection \<open>What an update reads and what it leaves alone\<close>

lemma paired_update_agree:
  assumes "agree_on_interface (h1 (coordinator p)) (h2 (coordinator p))"
  shows "PairedSensorSensor_async_update_from_latest_data h1 p
         = PairedSensorSensor_async_update_from_latest_data h2 p"
  using assms
  by (simp add: PairedSensorSensor_async_update_from_latest_data_def agree_on_interface_def
        getitem_def)

lemma valve_update_agree:
  assumes "\<forall>c \<in> ran (coordinators s). agree_on_interface (h1 c) (h2 c)"
  shows "ValveControllerSensor_async_update_from_latest_data K h1 s
         = ValveControllerSensor_async_update_from_latest_data K h2 s"
proof -
  have at: "agree_on_interface (h1 c) (h2 c)" if "coordinators s api = Some c" for api c
    using assms that by (auto simp: ran_def)
  show ?thesis
  proof (cases "coordinators s (API_SYSTEM_ONBOARD_SENSOR_STATUS K)")
    case None
    note onboard = this
    show ?thesis
    proof (cases "coordinators s (API_SYSTEM_DIAGNOSTICS K)")
      case None
      with onboard show ?thesis
        by (simp add: ValveControllerSensor_async_update_from_latest_data_def getitem_def)
    next
      case (Some d)
      with onboard at[OF Some] show ?thesis
        by (simp add: ValveControllerSensor_async_update_from_latest_data_def getitem_def
              agree_on_interface_def)
    qed
  next
    case (Some c)
    note onboard = this
    show ?thesis
    proof (cases "coordinators s (API_SYSTEM_DIAGNOSTICS K)")
      case None
      with onboard at[OF onboard] show ?thesis
        by (simp add: ValveControllerSensor_async_update_from_latest_data_def getitem_def
              agree_on_interface_def)
    next
      case (Some d)
      with onboard at[OF onboard] at[OF Some] show ?thesis
        by (simp add: ValveControllerSensor_async_update_from_latest_data_def getitem_def
              agree_on_interface_def)
    qed
  qed
qed

text \<open>
  C5. The update callbacks of both entity classes depend on coordinator state only
  through \<open>coordinator.data\<close> at the keys "battery", "temperature", "uptime" and
  through \<open>coordinator.last_update_success\<close>: for any two coordinator states
  agreeing on those fields, running \<open>_async_update_from_latest_data\<close> from the same
  entity state yields identical entity state. The two heaps need to agree only at
  the coordinators the entity refers to; the outcomes are equal as a whole, the
  exception raised included.
\<close>

theorem update_reads_interface_only:
  "(agree_on_interface (ha (coordinator p)) (hb (coordinator p))
    \<longrightarrow> PairedSensorSensor_async_update_from_latest_data ha p
        = PairedSensorSensor_async_update_from_latest_data hb p)
   \<and> ((\<forall>c \<in> ran (coordinators s). agree_on_interface (ha' c) (hb' c))
    \<longrightarrow> ValveControllerSensor_async_update_from_latest_data K ha' s
        = ValveControllerSensor_async_update_from_latest_data K hb' s)"
  using paired_update_agree valve_update_agree by blast

theorem update_reads_interface_only_witness:
  "example_heap 3 \<noteq> example_heap_rssi 3
   \<and> PairedSensorSensor_async_update_from_latest_data example_heap
       (example_paired SENSOR_DESCRIPTION_BATTERY)
     = PairedSensorSensor_async_update_from_latest_data example_heap_rssi
       (example_paired SENSOR_DESCRIPTION_BATTERY)
   \<and> example_heap 1 \<noteq> example_heap_rssi 1
   \<and> ValveControllerSensor_async_update_from_latest_data example_const example_heap
       (example_valve SENSOR_DESCRIPTION_TEMPERATURE)
     = ValveControllerSensor_async_update_from_latest_data example_const example_heap_rssi
       (example_valve SENSOR_DESCRIPTION_TEMPERATURE)"
proof -
  have agree: "agree_on_interface (example_heap r) (example_heap_rssi r)" for r
    by (simp add: agree_on_interface_def example_heap_rssi_def)
  have differ: "data (example_heap r) ''rssi'' \<noteq> data (example_heap_rssi r) ''rssi''"
    if "r = 1 \<or> r = 3" for r
    using that by (auto simp: example_heap_def example_heap_rssi_def)
  have "example_heap 3 \<noteq> example_heap_rssi 3" and "example_heap 1 \<noteq> example_heap_rssi 1"
    using differ[of 3] differ[of 1] by auto
  moreover have "\<forall>c \<in> ran (coordinators (example_valve SENSOR_DESCRIPTION_TEMPERATURE)).
      agree_on_interface (example_heap c) (example_heap_rssi c)"
    using agree by simp
  ultimately show ?thesis
    using agree[of "coordinator (example_paired SENSOR_DESCRIPTION_BATTERY)"]
      update_reads_interface_only
        [where p = "example_paired SENSOR_DESCRIPTION_BATTERY" and ha = example_heap
           and hb = example_heap_rssi and s = "example_valve SENSOR_DESCRIPTION_TEMPERATURE"
           and ha' = example_heap and hb' = example_heap_rssi and K = example_const]
    by blast
qed

text \<open>
  C6. If the dictionary key selected by the entity's sensor kind ("battery",
  "temperature" or "uptime") is absent from the relevant coordinator's data mapping,
  \<open>_async_update_from_latest_data\<close> raises a lookup fault that propagates to the
  caller; the module performs no handling or defaulting for missing keys. The fault
  is the \<open>KeyError\<close> of the key. A paired sensor is left as it was; a valve
  controller sensor has by then been assigned its availability, and its value is
  left as it was.
\<close>

theorem update_missing_key_raises:
  "(key (description p) = SENSOR_KIND_BATTERY \<and> data (h (coordinator p)) ''battery'' = None
    \<longrightarrow> PairedSensorSensor_async_update_from_latest_data h p
        = Raised (KeyError ''battery'') p)
   \<and> (key (description p) = SENSOR_KIND_TEMPERATURE
      \<and> data (h (coordinator p)) ''temperature'' = None
    \<longrightarrow> PairedSensorSensor_async_update_from_latest_data h p
        = Raised (KeyError ''temperature'') p)
   \<and> (key (description s) = SENSOR_KIND_TEMPERATURE
      \<and> coordinators s (API_SYSTEM_ONBOARD_SENSOR_STATUS K) = Some c
      \<and> data (h' c) ''temperature'' = None
    \<longrightarrow> ValveControllerSensor_async_update_from_latest_data K h' s
        = Raised (KeyError ''temperature'')
            (s\<lparr>attr_available := last_update_success (h' c)\<rparr>))
   \<and> (key (description s) = SENSOR_KIND_UPTIME
      \<and> coordinators s (API_SYSTEM_DIAGNOSTICS K) = Some d
      \<and> data (h' d) ''uptime'' = None
    \<longrightarrow> ValveControllerSensor_async_update_from_latest_data K h' s
        = Raised (KeyError ''uptime'')
            (s\<lparr>attr_available := last_update_success (h' d)\<rparr>))"
  by (simp add: ValveControllerSensor_async_update_from_latest_data_def
        PairedSensorSensor_async_update_from_latest_data_def getitem_def
        SENSOR_KIND_BATTERY_def SENSOR_KIND_UPTIME_def SENSOR_KIND_TEMPERATURE_def)

text \<open>
  The example runs every entity against a heap whose coordinators hold no data; the
  diagnostics coordinator of the example has last failed to update.
\<close>

theorem update_missing_key_raises_witness:
  "PairedSensorSensor_async_update_from_latest_data
       (\<lambda>r. (example_heap r)\<lparr>data := Map.empty\<rparr>) (example_paired SENSOR_DESCRIPTION_BATTERY)
     = Raised (KeyError ''battery'') (example_paired SENSOR_DESCRIPTION_BATTERY)
   \<and> PairedSensorSensor_async_update_from_latest_data
       (\<lambda>r. (example_heap r)\<lparr>data := Map.empty\<rparr>) (example_paired SENSOR_DESCRIPTION_TEMPERATURE)
     = Raised (KeyError ''temperature'') (example_paired SENSOR_DESCRIPTION_TEMPERATURE)
   \<and> ValveControllerSensor_async_update_from_latest_data example_const
       (\<lambda>r. (example_heap r)\<lparr>data := Map.empty\<rparr>) (example_valve SENSOR_DESCRIPTION_TEMPERATURE)
     = Raised (KeyError ''temperature'')
         ((example_valve SENSOR_DESCRIPTION_TEMPERATURE)\<lparr>attr_available := True\<rparr>)
   \<and> ValveControllerSensor_async_update_from_latest_data example_const
       (\<lambda>r. (example_heap r)\<lparr>data := Map.empty\<rparr>) (example_valve SENSOR_DESCRIPTION_UPTIME)
     = Raised (KeyError ''uptime'')
         ((example_valve SENSOR_DESCRIPTION_UPTIME)\<lparr>attr_available := False\<rparr>)"
proof -
  let ?h = "\<lambda>r. (example_heap r)\<lparr>data := Map.empty\<rparr>"
  have kinds:
    "key (description (example_paired SENSOR_DESCRIPTION_BATTERY)) = SENSOR_KIND_BATTERY"
    "key (description (example_paired SENSOR_DESCRIPTION_TEMPERATURE)) = SENSOR_KIND_TEMPERATURE"
    "key (description (example_valve SENSOR_DESCRIPTION_TEMPERATURE)) = SENSOR_KIND_TEMPERATURE"
    "key (description (example_valve SENSOR_DESCRIPTION_UPTIME)) = SENSOR_KIND_UPTIME"
    by (simp_all add: example_defs)
  have refs:
    "coordinators (example_valve SENSOR_DESCRIPTION_TEMPERATURE)
       (API_SYSTEM_ONBOARD_SENSOR_STATUS example_const) = Some 1"
    "coordinators (example_valve SENSOR_DESCRIPTION_UPTIME)
       (API_SYSTEM_DIAGNOSTICS example_const) = Some 2"
    by (simp_all add: example_defs)
  have empty: "data (?h r) k = None" for r k
    by simp
  have success: "last_update_success (?h 1) = True" "last_update_success (?h 2) = False"
    by (simp_all add: example_heap_def)
  from kinds refs empty success
    update_missing_key_raises
      [where p = "example_paired SENSOR_DESCRIPTION_BATTERY" and h = ?h
         and s = "example_valve SENSOR_DESCRIPTION_TEMPERATURE" and h' = ?h
         and K = example_const and c = 1]
    update_missing_key_raises
      [where p = "example_paired SENSOR_DESCRIPTION_TEMPERATURE" and h = ?h
         and s = "example_valve SENSOR_DESCRIPTION_UPTIME" and h' = ?h
         and K = example_const and d = 2]
  show ?thesis by simp
qed

text \<open>
  C7. Each of the two update callbacks is a two-way conditional over the static
  sensor kinds: for any entity whose description key is outside the two kinds
  handled by its class (outside "battery" and "temperature" for
  \<open>PairedSensorSensor\<close>, outside "temperature" and "uptime" for
  \<open>ValveControllerSensor\<close>), \<open>_async_update_from_latest_data\<close> returns and leaves
  the entire entity state unchanged.
\<close>

theorem update_other_kind_unchanged:
  "(key (description p) \<notin> {SENSOR_KIND_BATTERY, SENSOR_KIND_TEMPERATURE}
    \<longrightarrow> PairedSensorSensor_async_update_from_latest_data h p = Returned p)
   \<and> (key (description s) \<notin> {SENSOR_KIND_TEMPERATURE, SENSOR_KIND_UPTIME}
    \<longrightarrow> ValveControllerSensor_async_update_from_latest_data K h' s = Returned s)"
  by (simp add: ValveControllerSensor_async_update_from_latest_data_def
        PairedSensorSensor_async_update_from_latest_data_def)

theorem update_other_kind_unchanged_witness:
  "PairedSensorSensor_async_update_from_latest_data example_heap
       (example_paired SENSOR_DESCRIPTION_UPTIME)
     = Returned (example_paired SENSOR_DESCRIPTION_UPTIME)
   \<and> ValveControllerSensor_async_update_from_latest_data example_const example_heap
       (example_valve SENSOR_DESCRIPTION_BATTERY)
     = Returned (example_valve SENSOR_DESCRIPTION_BATTERY)"
proof -
  have paired: "key (description (example_paired SENSOR_DESCRIPTION_UPTIME))
      \<notin> {SENSOR_KIND_BATTERY, SENSOR_KIND_TEMPERATURE}"
    by (simp add: example_defs)
  have valve: "key (description (example_valve SENSOR_DESCRIPTION_BATTERY))
      \<notin> {SENSOR_KIND_TEMPERATURE, SENSOR_KIND_UPTIME}"
    by (simp add: example_defs)
  from paired valve
    update_other_kind_unchanged
      [where p = "example_paired SENSOR_DESCRIPTION_UPTIME" and h = example_heap
         and s = "example_valve SENSOR_DESCRIPTION_BATTERY" and h' = example_heap
         and K = example_const]
  show ?thesis by blast
qed

lemma paired_update_available:
  "attr_available (state_of (PairedSensorSensor_async_update_from_latest_data h p))
   = attr_available p"
  by (simp add: PairedSensorSensor_async_update_from_latest_data_def getitem_def
        split: option.split)

lemma paired_update_ignores_success:
  "PairedSensorSensor_async_update_from_latest_data
     (\<lambda>r. (h r)\<lparr>last_update_success := b r\<rparr>) p
   = PairedSensorSensor_async_update_from_latest_data h p"
  by (simp add: PairedSensorSensor_async_update_from_latest_data_def)

lemma valve_update_available:
  "key (description s) = SENSOR_KIND_TEMPERATURE
   \<Longrightarrow> coordinators s (API_SYSTEM_ONBOARD_SENSOR_STATUS K) = Some c
   \<Longrightarrow> attr_available (state_of (ValveControllerSensor_async_update_from_latest_data K h s))
       = last_update_success (h c)"
  "key (description s) = SENSOR_KIND_UPTIME
   \<Longrightarrow> coordinators s (API_SYSTEM_DIAGNOSTICS K) = Some d
   \<Longrightarrow> attr_available (state_of (ValveControllerSensor_async_update_from_latest_data K h s))
       = last_update_success (h d)"
  by (simp_all add: ValveControllerSensor_async_update_from_latest_data_def getitem_def
        SENSOR_KIND_UPTIME_def SENSOR_KIND_TEMPERATURE_def split: option.split)

text \<open>
  C8. \<open>PairedSensorSensor._async_update_from_latest_data\<close> never assigns
  \<open>_attr_available\<close> and never reads \<open>last_update_success\<close>: for every
  paired-sensor entity and every coordinator state, the entity's availability is
  unchanged by the update (whether it returns or raises), and the outcome is the same
  whatever the flags of the coordinators are. In contrast \<open>ValveControllerSensor\<close>
  ties availability to \<open>last_update_success\<close>: once the coordinator of its kind is
  found, the availability after the update is that coordinator's flag.
\<close>

theorem paired_update_keeps_available:
  "attr_available (state_of (PairedSensorSensor_async_update_from_latest_data h p))
     = attr_available p
   \<and> PairedSensorSensor_async_update_from_latest_data
       (\<lambda>r. (h r)\<lparr>last_update_success := b r\<rparr>) p
     = PairedSensorSensor_async_update_from_latest_data h p
   \<and> (key (description s) = SENSOR_KIND_TEMPERATURE
      \<and> coordinators s (API_SYSTEM_ONBOARD_SENSOR_STATUS K) = Some c
    \<longrightarrow> attr_available (state_of (ValveControllerSensor_async_update_from_latest_data K h' s))
        = last_update_success (h' c))
   \<and> (key (description s) = SENSOR_KIND_UPTIME
      \<and> coordinators s (API_SYSTEM_DIAGNOSTICS K) = Some d
    \<longrightarrow> attr_available (state_of (ValveControllerSensor_async_update_from_latest_data K h' s))
        = last_update_success (h' d))"
  using paired_update_available[of h p] paired_update_ignores_success[where h = h and b = b and p = p]
    valve_update_available[where s = s and K = K and h = h']
  by simp

text \<open>
  In the example the paired sensor's coordinator is set to have failed its last
  update: the paired sensor stays available, the uptime sensor of the valve
  controller follows its coordinator and becomes unavailable.
\<close>

theorem paired_update_keeps_available_witness:
  "attr_available (example_paired SENSOR_DESCRIPTION_BATTERY) = True
   \<and> attr_available (state_of (PairedSensorSensor_async_update_from_latest_data
         (\<lambda>r. (example_heap r)\<lparr>last_update_success := False\<rparr>)
         (example_paired SENSOR_DESCRIPTION_BATTERY))) = True
   \<and> PairedSensorSensor_async_update_from_latest_data
         (\<lambda>r. (example_heap r)\<lparr>last_update_success := False\<rparr>)
         (example_paired SENSOR_DESCRIPTION_BATTERY)
     = PairedSensorSensor_async_update_from_latest_data example_heap
         (example_paired SENSOR_DESCRIPTION_BATTERY)
   \<and> attr_available (example_valve SENSOR_DESCRIPTION_UPTIME) = True
   \<and> attr_available (state_of (ValveControllerSensor_async_update_from_latest_data
         example_const example_heap (example_valve SENSOR_DESCRIPTION_UPTIME))) = False
   \<and> attr_available (state_of (ValveControllerSensor_async_update_from_latest_data
         example_const example_heap (example_valve SENSOR_DESCRIPTION_TEMPERATURE))) = True"
proof -
  have before: "attr_available (example_paired SENSOR_DESCRIPTION_BATTERY) = True"
    "attr_available (example_valve SENSOR_DESCRIPTION_UPTIME) = True"
    by (simp_all add: example_defs)
  have uptime: "key (description (example_valve SENSOR_DESCRIPTION_UPTIME)) = SENSOR_KIND_UPTIME
      \<and> coordinators (example_valve SENSOR_DESCRIPTION_UPTIME)
          (API_SYSTEM_DIAGNOSTICS example_const) = Some 2"
    by (simp add: example_defs)
  have temperature:
    "key (description (example_valve SENSOR_DESCRIPTION_TEMPERATURE)) = SENSOR_KIND_TEMPERATURE
      \<and> coordinators (example_valve SENSOR_DESCRIPTION_TEMPERATURE)
          (API_SYSTEM_ONBOARD_SENSOR_STATUS example_const) = Some 1"
    by (simp add: example_defs)
  have flags: "last_update_success (example_heap 2) = False"
    "last_update_success (example_heap 1) = True"
    by (simp_all add: example_heap_def)
  from before uptime temperature flags
    paired_update_keeps_available
      [where h = "\<lambda>r. (example_heap r)\<lparr>last_update_success := False\<rparr>"
         and p = "example_paired SENSOR_DESCRIPTION_BATTERY"
         and b = "\<lambda>r. last_update_success (example_heap r)"
         and s = "example_valve SENSOR_DESCRIPTION_UPTIME" and K = example_const
         and h' = example_heap and d = 2]
    paired_update_keeps_available
      [where h = example_heap and p = "example_paired SENSOR_DESCRIPTION_BATTERY"
         and s = "example_valve SENSOR_DESCRIPTION_TEMPERATURE" and K = example_const
         and h' = example_heap and c = 1]
  show ?thesis by simp
qed

subsection \<open>The unit of measurement\<close>

lemma paired_update_unit:
  "attr_native_unit_of_measurement
     (state_of (PairedSensorSensor_async_update_from_latest_data h p))
   = attr_native_unit_of_measurement p"
  by (simp add: PairedSensorSensor_async_update_from_latest_data_def getitem_def
        split: option.split)

lemma valve_update_unit:
  "attr_native_unit_of_measurement
     (state_of (ValveControllerSensor_async_update_from_latest_data K h s))
   = attr_native_unit_of_measurement s"
  by (simp add: ValveControllerSensor_async_update_from_latest_data_def getitem_def
        split: option.split)

lemma paired_update_description:
  "description (state_of (PairedSensorSensor_async_update_from_latest_data h p)) = description p"
  by (simp add: PairedSensorSensor_async_update_from_latest_data_def getitem_def
        split: option.split)

lemma valve_update_description:
  "description (state_of (ValveControllerSensor_async_update_from_latest_data K h s))
   = description s"
  by (simp add: ValveControllerSensor_async_update_from_latest_data_def getitem_def
        split: option.split)

text \<open>
  C9. For both entity classes, after \<open>__init__\<close> the entity's
  \<open>_attr_native_unit_of_measurement\<close> equals its description's
  \<open>native_unit_of_measurement\<close> (percent for battery, degrees Fahrenheit for
  temperature, minutes for uptime), and no operation in this module ever changes it
  afterwards. The operations on an existing entity are the two update callbacks,
  which keep the unit and the description whether they return or raise, and
  \<open>_async_continue_entity_setup\<close>, which assigns no attribute.
\<close>

theorem unit_of_measurement_fixed:
  "attr_native_unit_of_measurement (PairedSensorSensor_init e c d :: 'v PairedSensorSensor)
     = native_unit_of_measurement d
   \<and> description (PairedSensorSensor_init e c d :: 'v PairedSensorSensor) = d
   \<and> attr_native_unit_of_measurement (ValveControllerSensor_init e cs d :: 'v ValveControllerSensor)
     = native_unit_of_measurement d
   \<and> description (ValveControllerSensor_init e cs d :: 'v ValveControllerSensor) = d
   \<and> native_unit_of_measurement SENSOR_DESCRIPTION_BATTERY = Some PERCENTAGE
   \<and> native_unit_of_measurement SENSOR_DESCRIPTION_TEMPERATURE = Some TEMP_FAHRENHEIT
   \<and> native_unit_of_measurement SENSOR_DESCRIPTION_UPTIME = Some TIME_MINUTES
   \<and> attr_native_unit_of_measurement
       (state_of (PairedSensorSensor_async_update_from_latest_data h p))
     = attr_native_unit_of_measurement p
   \<and> description (state_of (PairedSensorSensor_async_update_from_latest_data h p))
     = description p
   \<and> attr_native_unit_of_measurement
       (state_of (ValveControllerSensor_async_update_from_latest_data K h' s))
     = attr_native_unit_of_measurement s
   \<and> description (state_of (ValveControllerSensor_async_update_from_latest_data K h' s))
     = description s"
  by (simp add: PairedSensorSensor_init_def PairedSensorEntity_init_def
        ValveControllerSensor_init_def ValveControllerEntity_init_def
        SENSOR_DESCRIPTION_BATTERY_def SENSOR_DESCRIPTION_TEMPERATURE_def
        SENSOR_DESCRIPTION_UPTIME_def paired_update_unit valve_update_unit
        paired_update_description valve_update_description)

theorem unit_of_measurement_fixed_witness:
  "attr_native_unit_of_measurement (example_paired SENSOR_DESCRIPTION_BATTERY) = Some PERCENTAGE
   \<and> attr_native_unit_of_measurement (example_valve SENSOR_DESCRIPTION_UPTIME) = Some TIME_MINUTES
   \<and> attr_native_unit_of_measurement
       (state_of (PairedSensorSensor_async_update_from_latest_data example_heap
          (example_paired SENSOR_DESCRIPTION_BATTERY))) = Some PERCENTAGE
   \<and> attr_native_unit_of_measurement
       (state_of (ValveControllerSensor_async_update_from_latest_data example_const example_heap
          (example_valve SENSOR_DESCRIPTION_UPTIME))) = Some TIME_MINUTES"
proof -
  note battery = unit_of_measurement_fixed
      [where e = example_entry and c = 3 and cs = example_coordinators
         and d = SENSOR_DESCRIPTION_BATTERY
         and h = example_heap and p = "example_paired SENSOR_DESCRIPTION_BATTERY"
         and K = example_const and h' = example_heap
         and s = "example_valve SENSOR_DESCRIPTION_UPTIME", where ?'v = int]
  note uptime = unit_of_measurement_fixed
      [where e = example_entry and c = 3 and cs = example_coordinators
         and d = SENSOR_DESCRIPTION_UPTIME
         and h = example_heap and p = "example_paired SENSOR_DESCRIPTION_BATTERY"
         and K = example_const and h' = example_heap
         and s = "example_valve SENSOR_DESCRIPTION_UPTIME", where ?'v = int]
  have paired: "attr_native_unit_of_measurement (example_paired SENSOR_DESCRIPTION_BATTERY)
      = Some PERCENTAGE"
    using battery by (simp add: example_paired_def)
  have valve: "attr_native_unit_of_measurement (example_valve SENSOR_DESCRIPTION_UPTIME)
      = Some TIME_MINUTES"
    using uptime by (simp add: example_valve_def)
  from paired valve battery show ?thesis
    by simp
qed

subsection \<open>Listeners\<close>

text \<open>
  C10. \<open>ValveControllerSensor._async_continue_entity_setup\<close> registers a
  coordinator-update listener for the onboard-sensor-status API if and only if the
  entity's description key is "temperature"; in particular an uptime valve-controller
  sensor registers no listener during set-up. The method makes one call, for that
  API, or none.
\<close>

theorem continue_entity_setup_listener:
  "(ValveControllerSensor_async_continue_entity_setup K s calls
      = calls @ [Async_add_coordinator_update_listener (API_SYSTEM_ONBOARD_SENSOR_STATUS K)])
     = (key (description s) = SENSOR_KIND_TEMPERATURE)
   \<and> (ValveControllerSensor_async_continue_entity_setup K s calls = calls)
     = (key (description s) \<noteq> SENSOR_KIND_TEMPERATURE)
   \<and> (key (description s) = SENSOR_KIND_UPTIME
    \<longrightarrow> ValveControllerSensor_async_continue_entity_setup K s calls = calls)"
  by (simp add: ValveControllerSensor_async_continue_entity_setup_def
        SENSOR_KIND_UPTIME_def SENSOR_KIND_TEMPERATURE_def)

theorem continue_entity_setup_listener_witness:
  "ValveControllerSensor_async_continue_entity_setup example_const
       (example_valve SENSOR_DESCRIPTION_TEMPERATURE) []
     = [Async_add_coordinator_update_listener ''system_onboard_sensor_status'']
   \<and> ValveControllerSensor_async_continue_entity_setup example_const
       (example_valve SENSOR_DESCRIPTION_UPTIME) [] = []"
proof -
  have temperature:
    "key (description (example_valve SENSOR_DESCRIPTION_TEMPERATURE)) = SENSOR_KIND_TEMPERATURE"
    by (simp add: example_defs)
  have uptime: "key (description (example_valve SENSOR_DESCRIPTION_UPTIME)) = SENSOR_KIND_UPTIME"
    by (simp add: example_defs)
  have api: "API_SYSTEM_ONBOARD_SENSOR_STATUS example_const = ''system_onboard_sensor_status''"
    by (simp add: example_const_def)
  from temperature uptime api
    continue_entity_setup_listener
      [where K = example_const and s = "example_valve SENSOR_DESCRIPTION_TEMPERATURE"
         and calls = "[]"]
    continue_entity_setup_listener
      [where K = example_const and s = "example_valve SENSOR_DESCRIPTION_UPTIME"
         and calls = "[]"]
  show ?thesis by simp
qed

end
